theory Spec2Isabelle
  imports Complex_Main "HOL-Library.Signed_Division"
begin

section \<open>The differential-drive self-calibration demo driver\<close>

text \<open>
  This theory embeds \<^verbatim>\<open>main\<close> of \<^verbatim>\<open>examples/demo_diff_drive_self_calib.cpp\<close>: its
  configuration block, the body of its temporal loop and the loop's clock.

  Two kinds of \<^verbatim>\<open>double\<close> occur in the driver and they are modelled differently.
  \<^item> The loop variable \<^verbatim>\<open>t\<close> decides control flow: \<^verbatim>\<open>t < 240\<close>, \<^verbatim>\<open>t > 120\<close> and the two
    gates \<^verbatim>\<open>int(t*100) % \<dots> == 0\<close>, where the truncation \<^verbatim>\<open>int(\<dots>)\<close> turns a rounding error
    of one unit in the last place into a different integer. It is modelled as an
    IEEE-754 binary64 number with round-to-nearest-even arithmetic.
  \<^item> The numeric payload (controls, standard deviations, covariances, calibration
    coefficients) never decides a branch. It is modelled in exact real arithmetic, each
    decimal literal read as the number it denotes.

  The filters, the system model, the measurement models and the random number generator
  are library objects whose code is outside this file; the driver is modelled over an
  arbitrary implementation of them (the record \<open>library\<close> below).
\<close>

subsection \<open>Finite binary64 numbers\<close>

text \<open>
  \<open>Double m e\<close> stands for the finite number \<open>m \<cdot> 2\<^sup>e\<close>. Every value of the loop clock
  lies in the normal range of binary64, so exponent overflow, subnormals, infinities
  and NaN are left out; what is modelled is the 53-bit significand and its rounding.
\<close>

datatype double = Double (mant: int) (expo: int)

definition d_real :: "double \<Rightarrow> real" where
  "d_real a = (if 0 \<le> expo a then of_int (mant a) * 2 ^ nat (expo a)
               else of_int (mant a) / 2 ^ nat (- expo a))"

text \<open>The number of binary digits of a positive integer (0 for an integer below 1).\<close>

function bit_length :: "int \<Rightarrow> nat" where
  "bit_length n = (if n \<le> 0 then 0 else Suc (bit_length (n div 2)))"
  by pat_completeness auto
termination
  by (relation "measure nat") auto

declare bit_length.simps [simp del]

text \<open>
  \<open>round_shift M s\<close> drops the lowest \<open>s\<close> bits of the non-negative integer \<open>M\<close>, rounding
  to nearest and breaking a tie towards the even neighbour.
\<close>

definition round_shift :: "int \<Rightarrow> nat \<Rightarrow> int" where
  "round_shift M s =
     (let q = M div 2 ^ s; r = M mod 2 ^ s; half = 2 ^ (s - 1)
      in if s = 0 then M
         else if half < r \<or> (r = half \<and> odd q) then q + 1 else q)"

text \<open>
  \<open>fl M E\<close> is the binary64 number nearest to the exact value \<open>M \<cdot> 2\<^sup>E\<close>: an integer of
  at most 53 bits is kept as it is, a longer one is rounded to its leading 53 bits.
\<close>

definition fl :: "int \<Rightarrow> int \<Rightarrow> double" where
  "fl M E =
     (let n = bit_length \<bar>M\<bar>
      in if n \<le> 53 then Double M E
         else Double (sgn M * round_shift \<bar>M\<bar> (n - 53)) (E + int (n - 53)))"

definition d_of_int :: "int \<Rightarrow> double" where
  "d_of_int i = fl i 0"

definition d_add :: "double \<Rightarrow> double \<Rightarrow> double" where
  "d_add a b =
     (let e = min (expo a) (expo b)
      in fl (mant a * 2 ^ nat (expo a - e) + mant b * 2 ^ nat (expo b - e)) e)"

definition d_mul :: "double \<Rightarrow> double \<Rightarrow> double" where
  "d_mul a b = fl (mant a * mant b) (expo a + expo b)"

text \<open>
  Division computes the quotient of the significands with enough extra bits (at least
  56) and a sticky bit for a non-zero remainder, and rounds once. The driver never
  divides by zero; the model returns 0 there.
\<close>

definition d_div :: "double \<Rightarrow> double \<Rightarrow> double" where
  "d_div a b =
     (if mant b = 0 then Double 0 0
      else let k = 55 + bit_length \<bar>mant b\<bar>;
               N = \<bar>mant a\<bar> * 2 ^ k;
               Q = N div \<bar>mant b\<bar>;
               sticky = (if N mod \<bar>mant b\<bar> = 0 then 0 else 1)
           in fl (sgn (mant a) * sgn (mant b) * (2 * Q + sticky))
                 (expo a - expo b - int k - 1))"

definition d_less :: "double \<Rightarrow> double \<Rightarrow> bool" where
  "d_less a b =
     (let e = min (expo a) (expo b)
      in mant a * 2 ^ nat (expo a - e) < mant b * 2 ^ nat (expo b - e))"

text \<open>The conversion \<^verbatim>\<open>int(x)\<close> of C++ truncates towards zero.\<close>

definition d_int :: "double \<Rightarrow> int" where
  "d_int a =
     (if 0 \<le> expo a then mant a * 2 ^ nat (expo a)
      else sgn (mant a) * (\<bar>mant a\<bar> div 2 ^ nat (- expo a)))"

subsection \<open>Rates and the loop clock\<close>

definition control_freq :: int where
  "control_freq = 100"

definition landmark_freq :: int where
  "landmark_freq = 50"

definition gps_freq :: int where
  "gps_freq = 10"

text \<open>
  \<^verbatim>\<open>constexpr double dt = 1./control_freq\<close>. \<open>dt\<close> is the ideal value used in the numeric
  payload, \<open>dt_double\<close> the binary64 number that the loop adds to \<^verbatim>\<open>t\<close>.
\<close>

definition dt :: real where
  "dt = 1 / of_int control_freq"

definition dt_double :: double where
  "dt_double = d_div (d_of_int 1) (d_of_int control_freq)"

text \<open>
  \<^verbatim>\<open>for (double t = 0; t < 240; t += dt)\<close>: \<open>loop_time k\<close> is the value of \<^verbatim>\<open>t\<close> in
  iteration \<open>k\<close> of the loop (counted from 0), and \<open>None\<close> once the loop has ended.
\<close>

primrec loop_time :: "nat \<Rightarrow> double option" where
  "loop_time 0 = (if d_less (d_of_int 0) (d_of_int 240) then Some (d_of_int 0) else None)"
| "loop_time (Suc k) =
     (case loop_time k of
        None \<Rightarrow> None
      | Some t \<Rightarrow>
          (let t' = d_add t dt_double
           in if d_less t' (d_of_int 240) then Some t' else None))"

text \<open>
  The two gates of the correction phase:
  \<^verbatim>\<open>int(t*100) % int(100./landmark_freq) == 0\<close> and
  \<^verbatim>\<open>int(t*100) % int(100./gps_freq) == 0\<close>. The remainder \<^verbatim>\<open>%\<close> of C++ truncates
  (\<open>smod\<close>).
\<close>

definition tick :: "double \<Rightarrow> int" where
  "tick t = d_int (d_mul t (d_of_int 100))"

definition landmark_period :: int where
  "landmark_period = d_int (d_div (d_of_int 100) (d_of_int landmark_freq))"

definition gps_period :: int where
  "gps_period = d_int (d_div (d_of_int 100) (d_of_int gps_freq))"

definition landmark_due :: "double \<Rightarrow> bool" where
  "landmark_due t = (tick t smod landmark_period = 0)"

definition gps_due :: "double \<Rightarrow> bool" where
  "gps_due t = (tick t smod gps_period = 0)"

text \<open>\<^verbatim>\<open>if (t > 120)\<close>, the guard of the scripted model change.\<close>

definition model_changed :: "double \<Rightarrow> bool" where
  "model_changed t = d_less (d_of_int 120) t"

section \<open>The driver\<close>

subsection \<open>Vectors, matrices and states\<close>

text \<open>
  Eigen's fixed-size vectors and arrays of two entries are pairs, a vector of three
  entries is a triple, a 2\<times>2 matrix is a pair of rows. The six-vector and the 6\<times>6 state
  covariance, which the driver reads and writes by index, are lists (of rows); every
  index the driver uses on them is below 6.
\<close>

type_synonym Vector2d = "real \<times> real"
type_synonym Array2d = "real \<times> real"
type_synonym Matrix2d = "(real \<times> real) \<times> (real \<times> real)"
type_synonym Vector3d = "real \<times> real \<times> real"
type_synonym Vector6d = "real list"
type_synonym StateCovariance = "real list list"

definition vec_add :: "Vector2d \<Rightarrow> Vector2d \<Rightarrow> Vector2d" where
  "vec_add a b = (fst a + fst b, snd a + snd b)"

definition vec_scale :: "Vector2d \<Rightarrow> real \<Rightarrow> Vector2d" where
  "vec_scale a c = (fst a * c, snd a * c)"

definition array_mul :: "Array2d \<Rightarrow> Array2d \<Rightarrow> Array2d" where
  "array_mul a b = (fst a * fst b, snd a * snd b)"

definition array_div :: "Array2d \<Rightarrow> real \<Rightarrow> Array2d" where
  "array_div a c = (fst a / c, snd a / c)"

definition asDiagonal :: "Vector2d \<Rightarrow> Matrix2d" where
  "asDiagonal v = ((fst v, 0), (0, snd v))"

definition Zero6 :: StateCovariance where
  "Zero6 = replicate 6 (replicate 6 0)"

definition set_entry :: "StateCovariance \<Rightarrow> nat \<Rightarrow> nat \<Rightarrow> real \<Rightarrow> StateCovariance" where
  "set_entry M i j v = M[i := (M ! i)[j := v]]"

definition cwiseSqrt :: "StateCovariance \<Rightarrow> StateCovariance" where
  "cwiseSqrt M = map (map sqrt) M"

definition mat_vec :: "StateCovariance \<Rightarrow> Vector6d \<Rightarrow> Vector6d" where
  "mat_vec M v = map (\<lambda>row. sum_list (map2 (*) row v)) M"

text \<open>
  The state is a bundle of a planar pose (\<^verbatim>\<open>State::Element<0>\<close>, built from x, y and an
  angle) and three calibration coefficients (\<^verbatim>\<open>State::Element<1>\<close>, read and written
  through \<^verbatim>\<open>coeffs()(i)\<close>).
\<close>

record SE2d =
  se2_x :: real
  se2_y :: real
  se2_angle :: real

record State =
  element0 :: SE2d
  element1 :: Vector3d

definition State_Identity :: State where
  "State_Identity =
     \<lparr>element0 = \<lparr>se2_x = 0, se2_y = 0, se2_angle = 0\<rparr>, element1 = (0, 0, 0)\<rparr>"

text \<open>
  \<^verbatim>\<open>X.element<1>().coeffs()(i) = v\<close>. The driver writes the coefficients 0, 1 and 2 only;
  for any other index the model leaves the state as it is.
\<close>

definition set_coeff :: "nat \<Rightarrow> real \<Rightarrow> State \<Rightarrow> State" where
  "set_coeff i v X =
     X\<lparr>element1 :=
         (case element1 X of
            (a, b, c) \<Rightarrow>
              if i = 0 then (v, b, c)
              else if i = 1 then (a, v, c)
              else if i = 2 then (a, b, v)
              else (a, b, c))\<rparr>"

text \<open>\<^verbatim>\<open>Kinematics(0.15, 0.15, 0.4)\<close>: wheel radii (left, right) and wheel separation.\<close>

record Kinematics =
  radius_left :: real
  radius_right :: real
  separation :: real

text \<open>The system model object: its kinematics and the covariance that \<^verbatim>\<open>setCovariance\<close> installs.\<close>

record SystemModel =
  kinematics :: Kinematics
  covariance :: Matrix2d

text \<open>
  A measurement model as the filters receive it (inside \<^verbatim>\<open>MeasurementModelBundleWrapper\<close>):
  a landmark model with the landmark's position and its covariance, or the position-fix
  model with its covariance.
\<close>

datatype MeasurementModel =
  Landmark2DMeasurementModel Vector2d Matrix2d
| DummyGPSMeasurementModel Matrix2d

subsection \<open>Configuration\<close>

definition sqrtdt :: real where
  "sqrtdt = sqrt dt"

definition var_wheel :: real where
  "var_wheel = 9 / 100000"

definition var_gps :: real where
  "var_gps = 6 / 1000"

definition X_simulation_init :: State where
  "X_simulation_init = set_coeff 2 1 (set_coeff 1 1 (set_coeff 0 1 State_Identity))"

definition u_nom :: Vector2d where
  "u_nom = (5 / 10, 35 / 100)"

definition u_sigmas :: Array2d where
  "u_sigmas = (sqrt var_wheel, sqrt var_wheel)"

definition U :: Matrix2d where
  "U = asDiagonal (array_mul u_sigmas u_sigmas)"

definition y_sigmas :: Array2d where
  "y_sigmas = (1 / 100, 1 / 100)"

definition R :: Matrix2d where
  "R = asDiagonal (array_mul y_sigmas y_sigmas)"

definition measurement_models :: "MeasurementModel list" where
  "measurement_models =
     [Landmark2DMeasurementModel (2, 0) R,
      Landmark2DMeasurementModel (2, 1) R,
      Landmark2DMeasurementModel (2, - 1) R]"

definition y_gps_sigmas :: Array2d where
  "y_gps_sigmas = (sqrt var_gps, sqrt var_gps)"

definition R_gps :: Matrix2d where
  "R_gps = asDiagonal (array_mul y_gps_sigmas y_gps_sigmas)"

definition kinematic :: Kinematics where
  "kinematic = \<lparr>radius_left = 15 / 100, radius_right = 15 / 100, separation = 4 / 10\<rparr>"

text \<open>\<^verbatim>\<open>SystemModel system_model(kinematic); system_model.setCovariance(U);\<close>\<close>

definition system_model :: SystemModel where
  "system_model = \<lparr>kinematics = kinematic, covariance = U\<rparr>"

definition state_cov_init :: StateCovariance where
  "state_cov_init =
     set_entry (set_entry (set_entry (set_entry (set_entry (set_entry Zero6
       0 0 (1 / 10)) 1 1 (1 / 10)) 2 2 (17 / 100))
       3 3 (1 / 100000)) 4 4 (1 / 100000)) 5 5 (1 / 100000)"

text \<open>
  \<^verbatim>\<open>X_init_coeffs = state_cov_init.cwiseSqrt() * n\<close>, then 1 is added to the entries 3, 4
  and 5; \<open>n\<close> is the six-vector of standard normal draws. \<open>X_init\<close> is built from the
  first three coefficients (x, y, angle) and the last three (\<^verbatim>\<open>tail<3>()\<close>).
\<close>

definition X_init_coeffs :: "Vector6d \<Rightarrow> Vector6d" where
  "X_init_coeffs n =
     (let c = mat_vec (cwiseSqrt state_cov_init) n;
          c = c[3 := c ! 3 + 1];
          c = c[4 := c ! 4 + 1];
          c = c[5 := c ! 5 + 1]
      in c)"

definition X_init :: "Vector6d \<Rightarrow> State" where
  "X_init n =
     (let c = X_init_coeffs n
      in \<lparr>element0 = \<lparr>se2_x = c ! 0, se2_y = c ! 1, se2_angle = c ! 2\<rparr>,
          element1 = (c ! 3, c ! 4, c ! 5)\<rparr>)"

subsection \<open>The library the driver calls\<close>

text \<open>
  The operations of the filtering library and of the demo utilities that \<^verbatim>\<open>main\<close> calls.
  Their code is not part of this file, so the driver is modelled for any implementation:
  \<open>'e\<close>, \<open>'s\<close>, \<open>'i\<close> and \<open>'u\<close> are the four filter objects, \<open>'g\<close> the state of the random
  number generator behind \<^verbatim>\<open>randn\<close>.
  \<^item> \<open>randn6\<close> is \<^verbatim>\<open>randn<Array6d>()\<close>, \<open>randn2 sigmas\<close> is \<^verbatim>\<open>randn(sigmas)\<close>;
  \<^item> \<open>f_sys m X u\<close> is \<^verbatim>\<open>system_model(X, u)\<close>;
  \<^item> \<open>h_meas m X\<close> is \<^verbatim>\<open>MeasurementModelBundleWrapper{m}(X)\<close>;
  \<^item> the remaining fields are the constructors, setters, \<^verbatim>\<open>propagate\<close> and \<^verbatim>\<open>update\<close> of
    the four filters.
\<close>

record ('e, 's, 'i, 'u, 'g) library =
  randn6 :: "'g \<Rightarrow> Vector6d \<times> 'g"
  randn2 :: "Array2d \<Rightarrow> 'g \<Rightarrow> Vector2d \<times> 'g"
  f_sys :: "SystemModel \<Rightarrow> State \<Rightarrow> Vector2d \<Rightarrow> State"
  h_meas :: "MeasurementModel \<Rightarrow> State \<Rightarrow> Vector2d"
  EKF_ctor :: "'e"
  EKF_setState :: "'e \<Rightarrow> State \<Rightarrow> 'e"
  EKF_setCovariance :: "'e \<Rightarrow> StateCovariance \<Rightarrow> 'e"
  EKF_propagate :: "'e \<Rightarrow> SystemModel \<Rightarrow> Vector2d \<Rightarrow> 'e"
  EKF_update :: "'e \<Rightarrow> MeasurementModel \<Rightarrow> Vector2d \<Rightarrow> 'e"
  SEKF_ctor :: "State \<Rightarrow> StateCovariance \<Rightarrow> 's"
  SEKF_propagate :: "'s \<Rightarrow> SystemModel \<Rightarrow> Vector2d \<Rightarrow> 's"
  SEKF_update :: "'s \<Rightarrow> MeasurementModel \<Rightarrow> Vector2d \<Rightarrow> 's"
  IEKF_ctor :: "State \<Rightarrow> StateCovariance \<Rightarrow> 'i"
  IEKF_propagate :: "'i \<Rightarrow> SystemModel \<Rightarrow> Vector2d \<Rightarrow> real \<Rightarrow> 'i"
  IEKF_update :: "'i \<Rightarrow> MeasurementModel \<Rightarrow> Vector2d \<Rightarrow> 'i"
  UKFM_ctor :: "State \<Rightarrow> StateCovariance \<Rightarrow> 'u"
  UKFM_propagate :: "'u \<Rightarrow> SystemModel \<Rightarrow> Vector2d \<Rightarrow> 'u"
  UKFM_update :: "'u \<Rightarrow> MeasurementModel \<Rightarrow> Vector2d \<Rightarrow> 'u"

subsection \<open>The variables of \<^verbatim>\<open>main\<close> that the loop carries\<close>

record ('e, 's, 'i, 'u, 'g) main_vars =
  X_simulation :: State
  X_unfiltered :: State
  measurements :: "Vector2d list"
  ekf :: "'e"
  sekf :: "'s"
  iekf :: "'i"
  ukfm :: "'u"
  rng :: "'g"

text \<open>
  The state of \<^verbatim>\<open>main\<close> when the loop starts. The vector \<^verbatim>\<open>measurements\<close> is created
  with one entry per measurement model; each entry is overwritten before it is read, the
  model fills it with zeros.
\<close>

definition main_init ::
  "('e, 's, 'i, 'u, 'g) library \<Rightarrow> 'g \<Rightarrow> ('e, 's, 'i, 'u, 'g) main_vars" where
  "main_init L g =
     (let (n, g') = randn6 L g
      in \<lparr>X_simulation = X_simulation_init,
          X_unfiltered = X_simulation_init,
          measurements = replicate (length measurement_models) (0, 0),
          ekf = EKF_setCovariance L (EKF_setState L (EKF_ctor L) (X_init n)) state_cov_init,
          sekf = SEKF_ctor L (X_init n) state_cov_init,
          iekf = IEKF_ctor L (X_init n) state_cov_init,
          ukfm = UKFM_ctor L (X_init n) state_cov_init,
          rng = g'\<rparr>)"

subsection \<open>One iteration of the loop\<close>

text \<open>
  The controls of an iteration, named as in the source; \<open>s\<close> is the state at the start of
  the iteration, whose generator yields the control noise.
\<close>

definition u_noise :: "('e, 's, 'i, 'u, 'g) library \<Rightarrow> ('e, 's, 'i, 'u, 'g) main_vars \<Rightarrow> Vector2d" where
  "u_noise L s = fst (randn2 L (array_div u_sigmas sqrtdt) (rng s))"

definition u_noisy :: "('e, 's, 'i, 'u, 'g) library \<Rightarrow> ('e, 's, 'i, 'u, 'g) main_vars \<Rightarrow> Vector2d" where
  "u_noisy L s = vec_add u_nom (u_noise L s)"

definition u_simu :: Vector2d where
  "u_simu = vec_scale u_nom dt"

definition u_est :: "('e, 's, 'i, 'u, 'g) library \<Rightarrow> ('e, 's, 'i, 'u, 'g) main_vars \<Rightarrow> Vector2d" where
  "u_est L s = vec_scale (u_noisy L s) dt"

definition u_unfilt :: "('e, 's, 'i, 'u, 'g) library \<Rightarrow> ('e, 's, 'i, 'u, 'g) main_vars \<Rightarrow> Vector2d" where
  "u_unfilt L s = vec_scale (u_noisy L s) dt"

text \<open>The scripted model change: \<^verbatim>\<open>if (t > 120) { \<dots> coeffs()(0) = 0.85; \<dots> }\<close>.\<close>

definition tyre_squeeze :: "State \<Rightarrow> State" where
  "tyre_squeeze X = set_coeff 2 1 (set_coeff 1 (85 / 100) (set_coeff 0 (85 / 100) X))"

definition model_change ::
  "double \<Rightarrow> ('e, 's, 'i, 'u, 'g) main_vars \<Rightarrow> ('e, 's, 'i, 'u, 'g) main_vars" where
  "model_change t s =
     (if model_changed t then s\<lparr>X_simulation := tyre_squeeze (X_simulation s)\<rparr> else s)"

text \<open>The loop that measures all landmarks from the simulated state and adds noise.\<close>

definition measure_landmark ::
  "('e, 's, 'i, 'u, 'g) library \<Rightarrow> nat \<Rightarrow> ('e, 's, 'i, 'u, 'g) main_vars
     \<Rightarrow> ('e, 's, 'i, 'u, 'g) main_vars" where
  "measure_landmark L i s =
     (let y = h_meas L (measurement_models ! i) (X_simulation s);
          (y_noise, g') = randn2 L y_sigmas (rng s);
          y = vec_add y y_noise
      in s\<lparr>measurements := (measurements s)[i := y], rng := g'\<rparr>)"

text \<open>Part I of the loop body (simulation).\<close>

definition simulation ::
  "('e, 's, 'i, 'u, 'g) library \<Rightarrow> double \<Rightarrow> ('e, 's, 'i, 'u, 'g) main_vars
     \<Rightarrow> ('e, 's, 'i, 'u, 'g) main_vars" where
  "simulation L t s =
     (let s = s\<lparr>rng := snd (randn2 L (array_div u_sigmas sqrtdt) (rng s))\<rparr>;
          s = model_change t s;
          s = s\<lparr>X_simulation := f_sys L system_model (X_simulation s) u_simu\<rparr>
      in fold (measure_landmark L) [0..<length measurement_models] s)"

text \<open>
  Part II, first half: every filter propagates with \<^verbatim>\<open>u_est\<close> (the invariant filter is
  given \<^verbatim>\<open>dt\<close> as well), the unfiltered state moves with \<^verbatim>\<open>u_unfilt\<close>.
\<close>

definition estimation_move ::
  "('e, 's, 'i, 'u, 'g) library \<Rightarrow> Vector2d \<Rightarrow> Vector2d \<Rightarrow> ('e, 's, 'i, 'u, 'g) main_vars
     \<Rightarrow> ('e, 's, 'i, 'u, 'g) main_vars" where
  "estimation_move L ue uu s =
     s\<lparr>ekf := EKF_propagate L (ekf s) system_model ue,
       sekf := SEKF_propagate L (sekf s) system_model ue,
       iekf := IEKF_propagate L (iekf s) system_model ue dt,
       ukfm := UKFM_propagate L (ukfm s) system_model ue,
       X_unfiltered := f_sys L system_model (X_unfiltered s) uu\<rparr>"

text \<open>Part II, second half: the corrections.\<close>

definition update_all ::
  "('e, 's, 'i, 'u, 'g) library \<Rightarrow> MeasurementModel \<Rightarrow> Vector2d
     \<Rightarrow> ('e, 's, 'i, 'u, 'g) main_vars \<Rightarrow> ('e, 's, 'i, 'u, 'g) main_vars" where
  "update_all L m y s =
     s\<lparr>ekf := EKF_update L (ekf s) m y,
       sekf := SEKF_update L (sekf s) m y,
       iekf := IEKF_update L (iekf s) m y,
       ukfm := UKFM_update L (ukfm s) m y\<rparr>"

definition landmark_update ::
  "('e, 's, 'i, 'u, 'g) library \<Rightarrow> nat \<Rightarrow> ('e, 's, 'i, 'u, 'g) main_vars
     \<Rightarrow> ('e, 's, 'i, 'u, 'g) main_vars" where
  "landmark_update L i s =
     (let measurement_model = measurement_models ! i;
          y = measurements s ! i
      in update_all L measurement_model y s)"

definition y_gps :: "('e, 's, 'i, 'u, 'g) library \<Rightarrow> ('e, 's, 'i, 'u, 'g) main_vars \<Rightarrow> Vector2d" where
  "y_gps L s =
     vec_add (h_meas L (DummyGPSMeasurementModel R_gps) (X_simulation s))
             (fst (randn2 L y_gps_sigmas (rng s)))"

definition gps_update ::
  "('e, 's, 'i, 'u, 'g) library \<Rightarrow> ('e, 's, 'i, 'u, 'g) main_vars
     \<Rightarrow> ('e, 's, 'i, 'u, 'g) main_vars" where
  "gps_update L s =
     (let gps_measurement_model = DummyGPSMeasurementModel R_gps;
          y = y_gps L s;
          s = s\<lparr>rng := snd (randn2 L y_gps_sigmas (rng s))\<rparr>
      in update_all L gps_measurement_model y s)"

definition estimation_correct ::
  "('e, 's, 'i, 'u, 'g) library \<Rightarrow> double \<Rightarrow> ('e, 's, 'i, 'u, 'g) main_vars
     \<Rightarrow> ('e, 's, 'i, 'u, 'g) main_vars" where
  "estimation_correct L t s =
     (let s = (if landmark_due t
               then fold (landmark_update L) [0..<length measurement_models] s else s);
          s = (if gps_due t then gps_update L s else s)
      in s)"

text \<open>
  The loop body. Part III (collecting and printing the states) reads the variables and
  changes none of them; it is left out.
\<close>

definition step ::
  "('e, 's, 'i, 'u, 'g) library \<Rightarrow> double \<Rightarrow> ('e, 's, 'i, 'u, 'g) main_vars
     \<Rightarrow> ('e, 's, 'i, 'u, 'g) main_vars" where
  "step L t s =
     estimation_correct L t
       (estimation_move L (u_est L s) (u_unfilt L s) (simulation L t s))"

text \<open>The state of \<^verbatim>\<open>main\<close> after \<open>k\<close> iterations (or at the end of the loop, if that is earlier).\<close>

primrec loop_state ::
  "('e, 's, 'i, 'u, 'g) library \<Rightarrow> 'g \<Rightarrow> nat \<Rightarrow> ('e, 's, 'i, 'u, 'g) main_vars" where
  "loop_state L g 0 = main_init L g"
| "loop_state L g (Suc k) =
     (case loop_time k of
        None \<Rightarrow> loop_state L g k
      | Some t \<Rightarrow> step L t (loop_state L g k))"

subsection \<open>What a filter is fed in one iteration\<close>

text \<open>
  The measurements that the correction phase of iteration \<open>t\<close> hands to every filter, in
  the order of the calls: the stored landmark measurements in index order when the
  landmark gate is open, then the position fix when its gate is open. \<open>s\<close> is the state at
  the start of the iteration.
\<close>

definition observations ::
  "('e, 's, 'i, 'u, 'g) library \<Rightarrow> double \<Rightarrow> ('e, 's, 'i, 'u, 'g) main_vars
     \<Rightarrow> (MeasurementModel \<times> Vector2d) list" where
  "observations L t s =
     (let s1 = simulation L t s
      in (if landmark_due t
          then map (\<lambda>i. (measurement_models ! i, measurements s1 ! i))
                 [0..<length measurement_models]
          else [])
         @ (if gps_due t then [(DummyGPSMeasurementModel R_gps, y_gps L s1)] else []))"

subsection \<open>The system model of the specification\<close>

text \<open>
  Modelled from the spec: the differential-drive system model with calibration sub-state
  (section 4.2, steps 1 to 4: extract the three parameters from the calibration block,
  compute arc length and heading increment, form the pose tangent with zero lateral
  component, pad it with zeros for the calibration block). Its code,
  \<^verbatim>\<open>kalmanif/system_models/diff_drive_system_model.h\<close>, is not among the sources;
  \<^verbatim>\<open>main\<close> only calls it.
\<close>

definition diff_drive_tangent :: "State \<Rightarrow> Vector2d \<Rightarrow> real list" where
  "diff_drive_tangent X u =
     (let (r_l, r_r, d_w) = element1 X;
          dl = 1 / 2 * (r_l * fst u + r_r * snd u);
          dtheta = (r_r * snd u - r_l * fst u) / d_w
      in [dl, 0, dtheta, 0, 0, 0])"

section \<open>Facts about the binary64 model\<close>

text \<open>Rounding is to nearest, and a tie goes to the even significand.\<close>

lemma round_shift_nearest:
  assumes "0 < s" "0 \<le> M"
  shows "2 * \<bar>round_shift M s * 2 ^ s - M\<bar> \<le> 2 ^ s"
proof -
  define q where "q = M div 2 ^ s"
  define r where "r = M mod 2 ^ s"
  have M: "M = q * 2 ^ s + r"
    unfolding q_def r_def by (rule div_mult_mod_eq [symmetric])
  have r: "0 \<le> r" "r < 2 ^ s" by (simp_all add: r_def)
  have half: "(2::int) ^ s = 2 * 2 ^ (s - 1)"
    using assms(1) by (cases s) simp_all
  show ?thesis
    using r half assms(1) unfolding round_shift_def Let_def q_def [symmetric] r_def [symmetric]
    by (auto simp: M algebra_simps abs_if)
qed

lemma round_shift_tie_even:
  assumes "0 < s" "M mod 2 ^ s = 2 ^ (s - 1)"
  shows "even (round_shift M s)"
  using assms by (auto simp: round_shift_def Let_def)

lemma d_real_powi: "d_real a = of_int (mant a) * 2 powi (expo a)"
  by (simp add: d_real_def power_int_def field_simps)

text \<open>
  A positive integer of \<open>n\<close> bits lies between \<open>2\<^sup>n\<^sup>-\<^sup>1\<close> and \<open>2\<^sup>n\<close>. So \<open>fl\<close> keeps an
  integer of at most 53 bits exactly and rounds a longer one, of \<open>n\<close> bits, to a multiple
  of \<open>2\<^sup>n\<^sup>-\<^sup>5\<^sup>3\<close>, the spacing of binary64 at that magnitude, with an error of at most half
  that spacing.
\<close>

lemma bit_length_bounds:
  "0 < n \<Longrightarrow> 2 ^ (bit_length n - 1) \<le> n \<and> n < 2 ^ bit_length n"
proof (induction n rule: bit_length.induct)
  case (1 n)
  show ?case
  proof (cases "n = 1")
    case True
    have "bit_length 1 = 1"
      by code_simp
    with True show ?thesis by simp
  next
    case False
    with "1.prems" have pos: "0 < n div 2" by simp
    define b where "b = bit_length (n div 2)"
    have IH: "2 ^ (b - 1) \<le> n div 2" "n div 2 < 2 ^ b"
      using "1.IH" pos "1.prems" by (simp_all add: b_def)
    have b: "0 < b"
      using pos unfolding b_def by (subst bit_length.simps) simp
    have len: "bit_length n = Suc b"
      using "1.prems" unfolding b_def by (subst bit_length.simps) simp
    have pw: "(2::int) ^ b = 2 * 2 ^ (b - 1)"
      using b by (cases b) simp_all
    have "2 ^ b \<le> 2 * (n div 2)"
      using IH(1) by (simp add: pw)
    moreover have "2 * (n div 2) \<le> n"
      by simp
    moreover have "n < 2 * 2 ^ b"
      using IH(2) by linarith
    ultimately show ?thesis
      by (simp add: len)
  qed
qed

lemma fl_exact: "bit_length \<bar>M\<bar> \<le> 53 \<Longrightarrow> d_real (fl M E) = of_int M * 2 powi E"
  by (simp add: fl_def d_real_powi)


lemma fl_nearest:
  assumes "53 < bit_length \<bar>M\<bar>"
  shows "2 * \<bar>d_real (fl M E) - of_int M * 2 powi E\<bar>
           \<le> 2 powi (E + int (bit_length \<bar>M\<bar> - 53))"
proof -
  define s where "s = bit_length \<bar>M\<bar> - 53"
  define q where "q = round_shift \<bar>M\<bar> s"
  have s: "0 < s" using assms by (simp add: s_def)
  have fl: "fl M E = Double (sgn M * q) (E + int s)"
    using assms by (simp add: fl_def s_def q_def Let_def)
  have near: "2 * \<bar>q * 2 ^ s - \<bar>M\<bar>\<bar> \<le> 2 ^ s"
    unfolding q_def by (rule round_shift_nearest [OF s]) simp
  have pw: "(2::real) powi (E + int s) = 2 ^ s * 2 powi E"
    by (subst power_int_add) simp_all
  define D where "D = sgn M * (q * 2 ^ s - \<bar>M\<bar>)"
  have "\<bar>D\<bar> = \<bar>sgn M\<bar> * \<bar>q * 2 ^ s - \<bar>M\<bar>\<bar>"
    by (simp add: D_def abs_mult)
  also have "\<dots> \<le> 1 * \<bar>q * 2 ^ s - \<bar>M\<bar>\<bar>"
    by (intro mult_right_mono) (simp_all add: abs_sgn_eq)
  finally have D: "2 * \<bar>D\<bar> \<le> 2 ^ s"
    using near by simp
  have "(of_int M :: real) = of_int (sgn M * \<bar>M\<bar>)"
    by (simp only: mult_sgn_abs)
  then have "of_int M = (of_int (sgn M) * of_int \<bar>M\<bar> :: real)"
    by (simp only: of_int_mult)
  then have "d_real (fl M E) - of_int M * 2 powi E = of_int D * 2 powi E"
    by (simp add: fl d_real_powi pw D_def algebra_simps)
  then have "2 * \<bar>d_real (fl M E) - of_int M * 2 powi E\<bar> = of_int (2 * \<bar>D\<bar>) * 2 powi E"
    by (simp add: abs_mult)
  also have "\<dots> \<le> of_int (2 ^ s) * 2 powi E"
    using D by (intro mult_right_mono) (simp_all only: of_int_le_iff, simp)
  finally have "2 * \<bar>d_real (fl M E) - of_int M * 2 powi E\<bar> \<le> 2 powi (E + int s)"
    by (simp add: pw)
  then show ?thesis
    by (simp add: s_def)
qed


text \<open>The comparison of the model is the comparison of the numbers denoted.\<close>

lemma d_less_iff: "d_less a b \<longleftrightarrow> d_real a < d_real b"
proof -
  define e where "e = min (expo a) (expo b)"
  have pos: "(0::real) < 2 powi e" by simp
  have ea: "(2::real) ^ nat (expo a - e) = 2 powi (expo a - e)"
    by (simp add: power_int_def e_def)
  have eb: "(2::real) ^ nat (expo b - e) = 2 powi (expo b - e)"
    by (simp add: power_int_def e_def)
  have "d_less a b \<longleftrightarrow>
        (of_int (mant a * 2 ^ nat (expo a - e)) :: real) < of_int (mant b * 2 ^ nat (expo b - e))"
    unfolding d_less_def Let_def e_def of_int_less_iff ..
  also have "\<dots> \<longleftrightarrow>
        of_int (mant a) * 2 powi (expo a - e) < (of_int (mant b) * 2 powi (expo b - e) :: real)"
    by (simp add: ea eb)
  also have "\<dots> \<longleftrightarrow>
        of_int (mant a) * 2 powi (expo a - e) * 2 powi e
          < (of_int (mant b) * 2 powi (expo b - e) * 2 powi e :: real)"
    using pos by (simp only: mult_less_cancel_right_pos)
  also have "\<dots> \<longleftrightarrow> d_real a < d_real b"
    by (simp add: d_real_powi mult.assoc flip: power_int_add)
  finally show ?thesis .
qed

section \<open>Facts about the clock\<close>

lemma dt_value: "dt = 1 / 100"
  by (simp add: dt_def control_freq_def)

lemma dt_double_value: "dt_double = Double 5764607523034235 (- 59)"
  by code_simp

lemma landmark_period_value: "landmark_period = 2"
  by code_simp

lemma gps_period_value: "gps_period = 10"
  by code_simp

text \<open>
  \<open>dt_double\<close> is the binary64 number nearest to 1/100: its significand has 53 bits and
  it is less than half a unit in the last place (\<open>2\<^sup>-\<^sup>6\<^sup>0\<close>) away from \<open>dt\<close>.
\<close>

lemma dt_double_nearest:
  "\<bar>d_real dt_double - dt\<bar> < 1 / 2 ^ 60 \<and> bit_length (mant dt_double) = 53"
proof -
  have "bit_length 5764607523034235 = 53"
    by code_simp
  moreover have "\<bar>d_real (Double 5764607523034235 (- 59)) - dt\<bar> < 1 / 2 ^ 60"
    by (simp add: d_real_def dt_value)
  ultimately show ?thesis
    by (simp add: dt_double_value)
qed

lemma d_real_120: "d_real (d_of_int 120) = 120"
proof -
  have "d_of_int 120 = Double 120 0" by code_simp
  then show ?thesis by (simp add: d_real_def)
qed

lemma model_changed_iff: "model_changed t \<longleftrightarrow> 120 < d_real t"
  by (simp add: model_changed_def d_less_iff d_real_120)

text \<open>Whenever the position-fix gate is open, the landmark gate is open too.\<close>

lemma gps_due_implies_landmark_due: "gps_due t \<Longrightarrow> landmark_due t"
proof -
  assume "gps_due t"
  then have "sgn (tick t) * (\<bar>tick t\<bar> mod 10) = 0"
    by (simp add: gps_due_def gps_period_value signed_modulo_int_def)
  then have "\<bar>tick t\<bar> mod 2 = 0"
    by (cases "tick t = 0") (auto simp: sgn_if split: if_splits)
  then show ?thesis
    by (simp add: landmark_due_def landmark_period_value signed_modulo_int_def)
qed


text \<open>
  On an exact clock the counter \<^verbatim>\<open>int(t*100)\<close> would be the step index. The binary64 clock
  falls below the grid: after eleven and after twelve additions of \<open>dt_double\<close> it is less
  than 0.11 and 0.12.
\<close>

lemma exact_clock_counter: "\<lfloor>(of_nat k * dt) * 100\<rfloor> = int k"
  by (simp add: dt_value)

lemma clock_below_grid:
  "d_real (Double 7926335344172072 (- 56)) < 11 / 100"
  "d_real (Double 8646911284551351 (- 56)) < 12 / 100"
  by (simp_all add: d_real_def)

text \<open>
  In step 12 both gates are closed: no filter is corrected in that iteration.
\<close>

lemma step_12_gates:
  "landmark_due (Double 8646911284551351 (- 56)) = False"
  "gps_due (Double 8646911284551351 (- 56)) = False"
  by code_simp+

lemma step_12_no_correction:
  "observations L (Double 8646911284551351 (- 56)) s = []"
  by (simp add: observations_def step_12_gates)

text \<open>
  Claim C5. The driver is to fire the landmark updates on every loop step whose index is
  a multiple of 2 (50 Hz) and the position-fix updates on every step whose index is a
  multiple of 10 (10 Hz). Evaluated on the clock that the loop keeps, this fails early.
  In step 11 the accumulated \<^verbatim>\<open>t\<close> is just below 0.11, \<^verbatim>\<open>int(t*100)\<close> is 10, and both
  the landmark and the position-fix updates fire again, as in step 10. In step 12 the
  counter is 11 and the landmark updates do not fire although 12 is a multiple of 2.
\<close>

theorem gates_follow_truncated_clock_not_step_index:
  "loop_time 10 = Some (Double 7205759403792793 (- 56))
   \<and> loop_time 11 = Some (Double 7926335344172072 (- 56))
   \<and> loop_time 12 = Some (Double 8646911284551351 (- 56))
   \<and> tick (Double 7205759403792793 (- 56)) = 10
   \<and> tick (Double 7926335344172072 (- 56)) = 10
   \<and> tick (Double 8646911284551351 (- 56)) = 11
   \<and> landmark_due (Double 7926335344172072 (- 56))
   \<and> gps_due (Double 7926335344172072 (- 56))
   \<and> landmark_due (Double 8646911284551351 (- 56)) = False"
  by code_simp

section \<open>Facts about the configuration\<close>

lemma state_cov_init_value:
  "state_cov_init =
     [[1 / 10, 0, 0, 0, 0, 0],
      [0, 1 / 10, 0, 0, 0, 0],
      [0, 0, 17 / 100, 0, 0, 0],
      [0, 0, 0, 1 / 100000, 0, 0],
      [0, 0, 0, 0, 1 / 100000, 0],
      [0, 0, 0, 0, 0, 1 / 100000]]"
  by (simp add: state_cov_init_def set_entry_def Zero6_def eval_nat_numeral)

lemma X_init_coeffs_value:
  "X_init_coeffs [n0, n1, n2, n3, n4, n5] =
     [sqrt (1 / 10) * n0, sqrt (1 / 10) * n1, sqrt (17 / 100) * n2,
      sqrt (1 / 100000) * n3 + 1, sqrt (1 / 100000) * n4 + 1, sqrt (1 / 100000) * n5 + 1]"
  by (simp add: X_init_coeffs_def state_cov_init_value cwiseSqrt_def mat_vec_def Let_def
      eval_nat_numeral)

lemma X_init_value:
  "X_init [n0, n1, n2, n3, n4, n5] =
     \<lparr>element0 = \<lparr>se2_x = sqrt (1 / 10) * n0, se2_y = sqrt (1 / 10) * n1,
                   se2_angle = sqrt (17 / 100) * n2\<rparr>,
      element1 = (sqrt (1 / 100000) * n3 + 1, sqrt (1 / 100000) * n4 + 1,
                  sqrt (1 / 100000) * n5 + 1)\<rparr>"
  by (simp add: X_init_def X_init_coeffs_value Let_def eval_nat_numeral)

lemma X_simulation_init_value:
  "X_simulation_init =
     \<lparr>element0 = \<lparr>se2_x = 0, se2_y = 0, se2_angle = 0\<rparr>, element1 = (1, 1, 1)\<rparr>"
  by (simp add: X_simulation_init_def set_coeff_def State_Identity_def)

lemma tyre_squeeze_value:
  "element1 (tyre_squeeze X) = (85 / 100, 85 / 100, 1)"
  "element0 (tyre_squeeze X) = element0 X"
  by (simp_all add: tyre_squeeze_def set_coeff_def split: prod.splits)

lemma U_value: "U = ((9 / 100000, 0), (0, 9 / 100000))"
  by (simp add: U_def asDiagonal_def array_mul_def u_sigmas_def var_wheel_def)

lemma R_value: "R = ((1 / 10000, 0), (0, 1 / 10000))"
  by (simp add: R_def asDiagonal_def array_mul_def y_sigmas_def)

lemma R_gps_value: "R_gps = ((6 / 1000, 0), (0, 6 / 1000))"
  by (simp add: R_gps_def asDiagonal_def array_mul_def y_gps_sigmas_def var_gps_def)

lemma u_simu_value: "u_simu = (1 / 200, 7 / 2000)"
  by (simp add: u_simu_def vec_scale_def u_nom_def dt_value)

lemma sigma_bounds: "94 / 10000 < sqrt var_wheel \<and> sqrt var_wheel < 95 / 10000"
proof -
  have "(94 / 10000)\<^sup>2 < var_wheel" "var_wheel < (95 / 10000)\<^sup>2"
    by (simp_all add: var_wheel_def power2_eq_square)
  then show ?thesis
    by (metis real_sqrt_less_iff real_sqrt_abs abs_of_nonneg divide_nonneg_nonneg zero_le_numeral)
qed

lemma noise_rate: "(sqrt var_wheel / sqrtdt)\<^sup>2 = var_wheel / dt"
  by (simp add: sqrtdt_def power_divide var_wheel_def dt_value)

lemma indices_of_models: "[0..<length measurement_models] = [0, 1, 2]"
  by (simp add: measurement_models_def upt_rec)

section \<open>Facts about the loop body\<close>

subsection \<open>What each phase leaves unchanged\<close>

lemma measure_landmark_frame:
  "ekf (measure_landmark L i s) = ekf s"
  "sekf (measure_landmark L i s) = sekf s"
  "iekf (measure_landmark L i s) = iekf s"
  "ukfm (measure_landmark L i s) = ukfm s"
  "X_unfiltered (measure_landmark L i s) = X_unfiltered s"
  "X_simulation (measure_landmark L i s) = X_simulation s"
  by (simp_all add: measure_landmark_def Let_def split: prod.splits)

lemma fold_measure_landmark_frame:
  "ekf (fold (measure_landmark L) is s) = ekf s"
  "sekf (fold (measure_landmark L) is s) = sekf s"
  "iekf (fold (measure_landmark L) is s) = iekf s"
  "ukfm (fold (measure_landmark L) is s) = ukfm s"
  "X_unfiltered (fold (measure_landmark L) is s) = X_unfiltered s"
  "X_simulation (fold (measure_landmark L) is s) = X_simulation s"
  by (induction "is" arbitrary: s; simp add: measure_landmark_frame)+

lemma model_change_frame:
  "ekf (model_change t s) = ekf s"
  "sekf (model_change t s) = sekf s"
  "iekf (model_change t s) = iekf s"
  "ukfm (model_change t s) = ukfm s"
  "X_unfiltered (model_change t s) = X_unfiltered s"
  "rng (model_change t s) = rng s"
  "measurements (model_change t s) = measurements s"
  by (simp_all add: model_change_def)

lemma simulation_frame:
  "ekf (simulation L t s) = ekf s"
  "sekf (simulation L t s) = sekf s"
  "iekf (simulation L t s) = iekf s"
  "ukfm (simulation L t s) = ukfm s"
  "X_unfiltered (simulation L t s) = X_unfiltered s"
  by (simp_all add: simulation_def Let_def fold_measure_landmark_frame model_change_frame)

lemma simulation_X_simulation:
  "X_simulation (simulation L t s) =
     f_sys L system_model (X_simulation (model_change t s)) u_simu"
  by (simp add: simulation_def Let_def fold_measure_landmark_frame model_change_def)

lemma update_all_frame:
  "X_simulation (update_all L m y s) = X_simulation s"
  "X_unfiltered (update_all L m y s) = X_unfiltered s"
  "measurements (update_all L m y s) = measurements s"
  "rng (update_all L m y s) = rng s"
  by (simp_all add: update_all_def)

lemma landmark_update_frame:
  "X_simulation (landmark_update L i s) = X_simulation s"
  "X_unfiltered (landmark_update L i s) = X_unfiltered s"
  "measurements (landmark_update L i s) = measurements s"
  "rng (landmark_update L i s) = rng s"
  by (simp_all add: landmark_update_def Let_def update_all_frame)

lemma fold_landmark_update_frame:
  "X_simulation (fold (landmark_update L) is s) = X_simulation s"
  "X_unfiltered (fold (landmark_update L) is s) = X_unfiltered s"
  "measurements (fold (landmark_update L) is s) = measurements s"
  "rng (fold (landmark_update L) is s) = rng s"
  by (induction "is" arbitrary: s; simp add: landmark_update_frame)+

lemma estimation_move_frame:
  "X_simulation (estimation_move L ue uu s) = X_simulation s"
  "measurements (estimation_move L ue uu s) = measurements s"
  "rng (estimation_move L ue uu s) = rng s"
  by (simp_all add: estimation_move_def)

subsection \<open>What each phase does to the filters\<close>

lemma estimation_move_fields:
  "ekf (estimation_move L ue uu s) = EKF_propagate L (ekf s) system_model ue"
  "sekf (estimation_move L ue uu s) = SEKF_propagate L (sekf s) system_model ue"
  "iekf (estimation_move L ue uu s) = IEKF_propagate L (iekf s) system_model ue dt"
  "ukfm (estimation_move L ue uu s) = UKFM_propagate L (ukfm s) system_model ue"
  "X_unfiltered (estimation_move L ue uu s) = f_sys L system_model (X_unfiltered s) uu"
  by (simp_all add: estimation_move_def)

lemma landmark_update_filters:
  "ekf (landmark_update L i s) =
     EKF_update L (ekf s) (measurement_models ! i) (measurements s ! i)"
  "sekf (landmark_update L i s) =
     SEKF_update L (sekf s) (measurement_models ! i) (measurements s ! i)"
  "iekf (landmark_update L i s) =
     IEKF_update L (iekf s) (measurement_models ! i) (measurements s ! i)"
  "ukfm (landmark_update L i s) =
     UKFM_update L (ukfm s) (measurement_models ! i) (measurements s ! i)"
  by (simp_all add: landmark_update_def update_all_def Let_def)

text \<open>
  The landmark loop interleaves the four filters; seen from one filter it is a left fold
  of that filter's update over the stored measurements, in index order.
\<close>

lemma fold_landmark_update_ekf:
  "ekf (fold (landmark_update L) is s) =
     foldl (\<lambda>f (m, y). EKF_update L f m y) (ekf s)
       (map (\<lambda>i. (measurement_models ! i, measurements s ! i)) is)"
  by (induction "is" arbitrary: s) (simp_all add: landmark_update_frame landmark_update_filters)

lemma fold_landmark_update_sekf:
  "sekf (fold (landmark_update L) is s) =
     foldl (\<lambda>f (m, y). SEKF_update L f m y) (sekf s)
       (map (\<lambda>i. (measurement_models ! i, measurements s ! i)) is)"
  by (induction "is" arbitrary: s) (simp_all add: landmark_update_frame landmark_update_filters)

lemma fold_landmark_update_iekf:
  "iekf (fold (landmark_update L) is s) =
     foldl (\<lambda>f (m, y). IEKF_update L f m y) (iekf s)
       (map (\<lambda>i. (measurement_models ! i, measurements s ! i)) is)"
  by (induction "is" arbitrary: s) (simp_all add: landmark_update_frame landmark_update_filters)

lemma fold_landmark_update_ukfm:
  "ukfm (fold (landmark_update L) is s) =
     foldl (\<lambda>f (m, y). UKFM_update L f m y) (ukfm s)
       (map (\<lambda>i. (measurement_models ! i, measurements s ! i)) is)"
  by (induction "is" arbitrary: s) (simp_all add: landmark_update_frame landmark_update_filters)

lemma gps_update_fields:
  "ekf (gps_update L s) = EKF_update L (ekf s) (DummyGPSMeasurementModel R_gps) (y_gps L s)"
  "sekf (gps_update L s) = SEKF_update L (sekf s) (DummyGPSMeasurementModel R_gps) (y_gps L s)"
  "iekf (gps_update L s) = IEKF_update L (iekf s) (DummyGPSMeasurementModel R_gps) (y_gps L s)"
  "ukfm (gps_update L s) = UKFM_update L (ukfm s) (DummyGPSMeasurementModel R_gps) (y_gps L s)"
  "X_unfiltered (gps_update L s) = X_unfiltered s"
  "X_simulation (gps_update L s) = X_simulation s"
  by (simp_all add: gps_update_def update_all_def Let_def)

lemma y_gps_cong:
  "X_simulation s' = X_simulation s \<Longrightarrow> rng s' = rng s \<Longrightarrow> y_gps L s' = y_gps L s"
  by (simp add: y_gps_def)

lemma controls_unfold:
  "u_est L s = vec_scale (vec_add u_nom (u_noise L s)) dt"
  "u_unfilt L s = vec_scale (vec_add u_nom (u_noise L s)) dt"
  by (simp_all add: u_est_def u_unfilt_def u_noisy_def)

subsection \<open>The whole iteration, filter by filter\<close>

lemma step_ekf:
  "ekf (step L t s) =
     foldl (\<lambda>f (m, y). EKF_update L f m y)
       (EKF_propagate L (ekf s) system_model (u_est L s)) (observations L t s)"
  by (simp add: step_def estimation_correct_def observations_def Let_def
      fold_landmark_update_ekf fold_landmark_update_frame gps_update_fields
      estimation_move_frame estimation_move_fields simulation_frame
      y_gps_cong [of "fold (landmark_update L) is (estimation_move L ue uu s1)" s1 for "is" ue uu s1]
      y_gps_cong [of "estimation_move L ue uu s1" s1 for ue uu s1])

lemma step_sekf:
  "sekf (step L t s) =
     foldl (\<lambda>f (m, y). SEKF_update L f m y)
       (SEKF_propagate L (sekf s) system_model (u_est L s)) (observations L t s)"
  by (simp add: step_def estimation_correct_def observations_def Let_def
      fold_landmark_update_sekf fold_landmark_update_frame gps_update_fields
      estimation_move_frame estimation_move_fields simulation_frame
      y_gps_cong [of "fold (landmark_update L) is (estimation_move L ue uu s1)" s1 for "is" ue uu s1]
      y_gps_cong [of "estimation_move L ue uu s1" s1 for ue uu s1])

lemma step_iekf:
  "iekf (step L t s) =
     foldl (\<lambda>f (m, y). IEKF_update L f m y)
       (IEKF_propagate L (iekf s) system_model (u_est L s) dt) (observations L t s)"
  by (simp add: step_def estimation_correct_def observations_def Let_def
      fold_landmark_update_iekf fold_landmark_update_frame gps_update_fields
      estimation_move_frame estimation_move_fields simulation_frame
      y_gps_cong [of "fold (landmark_update L) is (estimation_move L ue uu s1)" s1 for "is" ue uu s1]
      y_gps_cong [of "estimation_move L ue uu s1" s1 for ue uu s1])

lemma step_ukfm:
  "ukfm (step L t s) =
     foldl (\<lambda>f (m, y). UKFM_update L f m y)
       (UKFM_propagate L (ukfm s) system_model (u_est L s)) (observations L t s)"
  by (simp add: step_def estimation_correct_def observations_def Let_def
      fold_landmark_update_ukfm fold_landmark_update_frame gps_update_fields
      estimation_move_frame estimation_move_fields simulation_frame
      y_gps_cong [of "fold (landmark_update L) is (estimation_move L ue uu s1)" s1 for "is" ue uu s1]
      y_gps_cong [of "estimation_move L ue uu s1" s1 for ue uu s1])

lemma step_X_unfiltered:
  "X_unfiltered (step L t s) = f_sys L system_model (X_unfiltered s) (u_unfilt L s)"
  by (simp add: step_def estimation_correct_def Let_def fold_landmark_update_frame
      gps_update_fields estimation_move_fields simulation_frame)

lemma step_X_simulation:
  "X_simulation (step L t s) =
     f_sys L system_model (X_simulation (model_change t s)) u_simu"
  by (simp add: step_def estimation_correct_def Let_def fold_landmark_update_frame
      gps_update_fields estimation_move_frame simulation_X_simulation)

subsection \<open>The measurement vector keeps its size\<close>

text \<open>
  Throughout the loop \<^verbatim>\<open>measurements\<close> has one entry per measurement model, so the reads
  and writes \<^verbatim>\<open>measurements[i]\<close> of both landmark loops are within range.
\<close>

lemma length_measure_landmark:
  "length (measurements (measure_landmark L i s)) = length (measurements s)"
  by (simp add: measure_landmark_def Let_def split: prod.splits)

lemma length_fold_measure_landmark:
  "length (measurements (fold (measure_landmark L) is s)) = length (measurements s)"
  by (induction "is" arbitrary: s) (simp_all add: length_measure_landmark)

lemma length_measurements_simulation:
  "length (measurements (simulation L t s)) = length (measurements s)"
  by (simp add: simulation_def Let_def length_fold_measure_landmark model_change_frame)

lemma measurements_estimation_correct:
  "measurements (estimation_correct L t s) = measurements s"
  by (simp add: estimation_correct_def Let_def fold_landmark_update_frame gps_update_def
      update_all_frame)

lemma length_measurements_step:
  "length (measurements (step L t s)) = length (measurements s)"
  by (simp add: step_def measurements_estimation_correct estimation_move_frame
      length_measurements_simulation)

lemma length_measurements_loop:
  "length (measurements (loop_state L g k)) = length measurement_models"
  by (induction k)
     (simp_all add: main_init_def length_measurements_step split: prod.splits option.splits)

subsection \<open>Iterations 11 and 12 of the loop\<close>

text \<open>
  The clock of iterations 11 and 12, the state of \<^verbatim>\<open>main\<close> after them, and what the
  filters are fed in iteration 11, where both gates are open.
\<close>

lemma loop_time_11: "loop_time 11 = Some (Double 7926335344172072 (- 56))"
  by code_simp

lemma loop_time_12: "loop_time 12 = Some (Double 8646911284551351 (- 56))"
  by code_simp

lemma step_11_gates:
  "landmark_due (Double 7926335344172072 (- 56))"
  "gps_due (Double 7926335344172072 (- 56))"
  by code_simp+

lemma loop_state_Suc:
  "loop_time k = Some t \<Longrightarrow> loop_state L g (Suc k) = step L t (loop_state L g k)"
  by simp

lemma loop_state_12: 
  "loop_state L g 12 = step L (Double 7926335344172072 (- 56)) (loop_state L g 11)"
  using loop_state_Suc [OF loop_time_11, of L g] by (simp add: eval_nat_numeral)

lemma loop_state_13: 
  "loop_state L g 13 = step L (Double 8646911284551351 (- 56)) (loop_state L g 12)"
  using loop_state_Suc [OF loop_time_12, of L g] by (simp add: eval_nat_numeral)

lemma step_11_observations:
  "observations L (Double 7926335344172072 (- 56)) s =
     [(measurement_models ! 0, measurements (simulation L (Double 7926335344172072 (- 56)) s) ! 0),
      (measurement_models ! 1, measurements (simulation L (Double 7926335344172072 (- 56)) s) ! 1),
      (measurement_models ! 2, measurements (simulation L (Double 7926335344172072 (- 56)) s) ! 2),
      (DummyGPSMeasurementModel R_gps, y_gps L (simulation L (Double 7926335344172072 (- 56)) s))]"
  by (simp add: observations_def step_11_gates indices_of_models Let_def)

section \<open>The claims\<close>

text \<open>
  Claim C1. Every control that the driver hands to the process model is a wheel-rate
  vector multiplied by \<open>dt\<close>, once: the simulator call receives \<open>u_nom \<cdot> dt\<close> (which is
  (0.005, 0.0035)), each of the four \<^verbatim>\<open>propagate\<close> calls and the unfiltered baseline
  receive \<open>(u_nom + u_noise) \<cdot> dt\<close>. The invariant filter is passed \<open>dt\<close> as a further
  argument, next to the already scaled control.
\<close>

theorem controls_premultiplied_by_dt:
  "u_simu = vec_scale u_nom dt
   \<and> u_simu = (1 / 200, 7 / 2000)
   \<and> u_est L s = vec_scale (vec_add u_nom (u_noise L s)) dt
   \<and> u_unfilt L s = vec_scale (vec_add u_nom (u_noise L s)) dt
   \<and> X_simulation (simulation L t s) =
       f_sys L system_model (X_simulation (model_change t s)) (vec_scale u_nom dt)
   \<and> ekf (estimation_move L (u_est L s) (u_unfilt L s) (simulation L t s)) =
       EKF_propagate L (ekf s) system_model (vec_scale (vec_add u_nom (u_noise L s)) dt)
   \<and> sekf (estimation_move L (u_est L s) (u_unfilt L s) (simulation L t s)) =
       SEKF_propagate L (sekf s) system_model (vec_scale (vec_add u_nom (u_noise L s)) dt)
   \<and> iekf (estimation_move L (u_est L s) (u_unfilt L s) (simulation L t s)) =
       IEKF_propagate L (iekf s) system_model (vec_scale (vec_add u_nom (u_noise L s)) dt) dt
   \<and> ukfm (estimation_move L (u_est L s) (u_unfilt L s) (simulation L t s)) =
       UKFM_propagate L (ukfm s) system_model (vec_scale (vec_add u_nom (u_noise L s)) dt)
   \<and> X_unfiltered (estimation_move L (u_est L s) (u_unfilt L s) (simulation L t s)) =
       f_sys L system_model (X_unfiltered s) (vec_scale (vec_add u_nom (u_noise L s)) dt)
   \<and> X_simulation (step L t s) =
       f_sys L system_model (X_simulation (model_change t s)) (vec_scale u_nom dt)
   \<and> X_unfiltered (step L t s) =
       f_sys L system_model (X_unfiltered s) (vec_scale (vec_add u_nom (u_noise L s)) dt)"
  by (simp add: u_simu_value [symmetric] estimation_move_fields simulation_frame
      simulation_X_simulation step_X_simulation step_X_unfiltered controls_unfold [symmetric])
     (simp add: u_simu_def u_est_def u_unfilt_def)

text \<open>
  Claim C2. The simulated model starts with the wheel radii 0.15 (the radii of the
  kinematics, scaled by the simulator's coefficients 1). The scripted change takes effect
  exactly when \<open>t > 120\<close>; it sets the simulator's coefficients to (0.85, 0.85, 1), which
  makes the radii 0.15 \<cdot> 0.85 = 0.1275, a reduction by 15 percent. The change is written
  into \<open>X_simulation\<close> only: neither it nor the rest of the simulation phase touches any of
  the four filters or the unfiltered state.
\<close>

theorem model_change_writes_simulator_only:
  "radius_left kinematic * fst (element1 X_simulation_init) = 15 / 100
   \<and> radius_right kinematic * fst (snd (element1 X_simulation_init)) = 15 / 100
   \<and> model_changed t = (120 < d_real t)
   \<and> element1 (X_simulation (model_change t s)) =
       (if model_changed t then (85 / 100, 85 / 100, 1) else element1 (X_simulation s))
   \<and> radius_left kinematic * fst (element1 (tyre_squeeze X)) = 1275 / 10000
   \<and> radius_right kinematic * fst (snd (element1 (tyre_squeeze X))) = 1275 / 10000
   \<and> (1275 / 10000 :: real) = (1 - 15 / 100) * (15 / 100)
   \<and> ekf (model_change t s) = ekf s \<and> sekf (model_change t s) = sekf s
   \<and> iekf (model_change t s) = iekf s \<and> ukfm (model_change t s) = ukfm s
   \<and> X_unfiltered (model_change t s) = X_unfiltered s
   \<and> ekf (simulation L t s) = ekf s \<and> sekf (simulation L t s) = sekf s
   \<and> iekf (simulation L t s) = iekf s \<and> ukfm (simulation L t s) = ukfm s"
  by (simp add: model_change_frame simulation_frame X_simulation_init_value
      model_changed_iff [symmetric] kinematic_def)
     (simp add: model_change_def tyre_squeeze_value)

text \<open>
  Claim C3. In every iteration the control noise is drawn with the per-wheel standard
  deviation \<open>u_sigmas / \<surd>dt\<close>, and the noisy control is then multiplied by \<open>dt\<close>. The
  covariance of the system model, installed by \<^verbatim>\<open>setCovariance(U)\<close> before the loop, is
  \<open>U = diag(9e-5, 9e-5)\<close>. The square of the standard deviation handed to \<^verbatim>\<open>randn\<close> is
  \<open>9e-5 / dt\<close>: the driver treats \<open>U\<close> as a continuous-time rate.
\<close>

theorem control_noise_follows_continuous_time_rate:
  "u_noise L s =
     fst (randn2 L (sqrt var_wheel / sqrt dt, sqrt var_wheel / sqrt dt) (rng s))
   \<and> u_est L s = vec_scale (vec_add u_nom (u_noise L s)) dt
   \<and> covariance system_model = U
   \<and> U = ((9 / 100000, 0), (0, 9 / 100000))
   \<and> (sqrt var_wheel / sqrt dt)\<^sup>2 = (9 / 100000) / dt"
  using noise_rate
  by (simp add: controls_unfold system_model_def U_value [symmetric])
     (simp add: u_noise_def array_div_def u_sigmas_def sqrtdt_def var_wheel_def)

text \<open>
  Claim C4. For every state with calibration block \<open>(r_l, r_r, d_w)\<close> and every integrated
  control \<open>(phi_l, phi_r)\<close>, the pose increment of the system model has the arc length
  \<open>(r_l \<cdot> phi_l + r_r \<cdot> phi_r) / 2\<close>, no lateral component, and the heading increment
  \<open>(r_r \<cdot> phi_r - r_l \<cdot> phi_l) / d_w\<close>; the calibration block gets no increment.
\<close>

theorem diff_drive_tangent_increments:
  "diff_drive_tangent \<lparr>element0 = P, element1 = (r_l, r_r, d_w)\<rparr> (phi_l, phi_r) =
     [1 / 2 * (r_l * phi_l + r_r * phi_r), 0, (r_r * phi_r - r_l * phi_l) / d_w, 0, 0, 0]"
  by (simp add: diff_drive_tangent_def)

text \<open>
  Claim C6. The driver configures exactly three landmarks, at (2, 0), (2, 1) and (2, -1),
  each with the measurement covariance \<open>1e-4 \<cdot> I\<close>, and is to apply their updates at 50 Hz
  on the base grid of \<open>dt = 0.01\<close> s, that is, in every second iteration of the loop. The
  landmarks, the covariance and the configured rates are as stated. The updates are not
  applied in every second iteration: in iteration 11 of the loop every filter is
  propagated and then corrected with all three landmark measurements, in index order,
  and with the position fix; in iteration 12 every filter is propagated and gets no
  correction at all.
\<close>

theorem landmark_updates_follow_truncated_clock:
  "measurement_models =
     [Landmark2DMeasurementModel (2, 0) ((1 / 10000, 0), (0, 1 / 10000)),
      Landmark2DMeasurementModel (2, 1) ((1 / 10000, 0), (0, 1 / 10000)),
      Landmark2DMeasurementModel (2, - 1) ((1 / 10000, 0), (0, 1 / 10000))]
   \<and> landmark_freq = 50 \<and> dt = 1 / 100 \<and> landmark_period = 2
   \<and> loop_time 11 = Some (Double 7926335344172072 (- 56))
   \<and> loop_time 12 = Some (Double 8646911284551351 (- 56))
   \<and> ekf (loop_state L g 12) =
       foldl (\<lambda>f (m, y). EKF_update L f m y)
         (EKF_propagate L (ekf (loop_state L g 11)) system_model (u_est L (loop_state L g 11)))
         [(measurement_models ! 0,
             measurements (simulation L (Double 7926335344172072 (- 56)) (loop_state L g 11)) ! 0),
          (measurement_models ! 1,
             measurements (simulation L (Double 7926335344172072 (- 56)) (loop_state L g 11)) ! 1),
          (measurement_models ! 2,
             measurements (simulation L (Double 7926335344172072 (- 56)) (loop_state L g 11)) ! 2),
          (DummyGPSMeasurementModel R_gps,
             y_gps L (simulation L (Double 7926335344172072 (- 56)) (loop_state L g 11)))]
   \<and> ekf (loop_state L g 13) =
       EKF_propagate L (ekf (loop_state L g 12)) system_model (u_est L (loop_state L g 12))
   \<and> sekf (loop_state L g 13) =
       SEKF_propagate L (sekf (loop_state L g 12)) system_model (u_est L (loop_state L g 12))
   \<and> iekf (loop_state L g 13) =
       IEKF_propagate L (iekf (loop_state L g 12)) system_model (u_est L (loop_state L g 12)) dt
   \<and> ukfm (loop_state L g 13) =
       UKFM_propagate L (ukfm (loop_state L g 12)) system_model (u_est L (loop_state L g 12))"
proof -
  have models: "measurement_models =
     [Landmark2DMeasurementModel (2, 0) ((1 / 10000, 0), (0, 1 / 10000)),
      Landmark2DMeasurementModel (2, 1) ((1 / 10000, 0), (0, 1 / 10000)),
      Landmark2DMeasurementModel (2, - 1) ((1 / 10000, 0), (0, 1 / 10000))]"
    by (simp add: measurement_models_def R_value)
  have rates: "landmark_freq = 50" "dt = 1 / 100" "landmark_period = 2"
    by (simp_all add: landmark_freq_def dt_value landmark_period_value)
  have s12: "ekf (loop_state L g 12) =
       foldl (\<lambda>f (m, y). EKF_update L f m y)
         (EKF_propagate L (ekf (loop_state L g 11)) system_model (u_est L (loop_state L g 11)))
         (observations L (Double 7926335344172072 (- 56)) (loop_state L g 11))"
    unfolding loop_state_12 by (rule step_ekf)
  have s13:
    "ekf (loop_state L g 13) =
       EKF_propagate L (ekf (loop_state L g 12)) system_model (u_est L (loop_state L g 12))"
    "sekf (loop_state L g 13) =
       SEKF_propagate L (sekf (loop_state L g 12)) system_model (u_est L (loop_state L g 12))"
    "iekf (loop_state L g 13) =
       IEKF_propagate L (iekf (loop_state L g 12)) system_model (u_est L (loop_state L g 12)) dt"
    "ukfm (loop_state L g 13) =
       UKFM_propagate L (ukfm (loop_state L g 12)) system_model (u_est L (loop_state L g 12))"
    unfolding loop_state_13
    by (simp_all add: step_ekf step_sekf step_iekf step_ukfm step_12_no_correction)
  show ?thesis
    using models rates s12 s13 loop_time_11 loop_time_12
    by (simp only: step_11_observations simp_thms)
qed

text \<open>
  Claim C7. All four estimators start from the same pair: the extended filter is given
  \<open>X_init\<close> by \<^verbatim>\<open>setState\<close> and \<open>state_cov_init\<close> by \<^verbatim>\<open>setCovariance\<close>, the other three
  are constructed from \<open>X_init\<close> and \<open>state_cov_init\<close>.
\<close>

theorem estimators_share_initial_pair:
  "ekf (main_init L g) =
     EKF_setCovariance L (EKF_setState L (EKF_ctor L) (X_init (fst (randn6 L g)))) state_cov_init
   \<and> sekf (main_init L g) = SEKF_ctor L (X_init (fst (randn6 L g))) state_cov_init
   \<and> iekf (main_init L g) = IEKF_ctor L (X_init (fst (randn6 L g))) state_cov_init
   \<and> ukfm (main_init L g) = UKFM_ctor L (X_init (fst (randn6 L g))) state_cov_init"
  by (simp add: main_init_def Let_def split: prod.splits)

text \<open>
  Claim C8, as stated: the per-wheel standard deviation of the control noise is 9.4e-3,
  that is, \<open>var_wheel\<close> is the square of 9.4e-3. It is not: \<open>var_wheel\<close> is 9e-5 and the
  square of 9.4e-3 is 8.836e-5.
\<close>

theorem var_wheel_is_not_square_of_9_4e_3: "var_wheel \<noteq> (94 / 10000)\<^sup>2"
  by (simp add: var_wheel_def power2_eq_square)

text \<open>
  Claim C8, amended. The wheel-noise variance \<open>var_wheel\<close> is 9e-5, and the per-wheel
  standard deviation \<open>u_sigmas\<close> is its square root, which lies strictly between 9.4e-3
  and 9.5e-3.
\<close>

theorem wheel_noise_sigma_bounds:
  "var_wheel = 9 / 100000
   \<and> u_sigmas = (sqrt var_wheel, sqrt var_wheel)
   \<and> 94 / 10000 < fst u_sigmas \<and> fst u_sigmas < 95 / 10000
   \<and> 94 / 10000 < snd u_sigmas \<and> snd u_sigmas < 95 / 10000"
  using sigma_bounds by (simp add: u_sigmas_def) (simp add: var_wheel_def)

text \<open>
  Claim C9. The calibration block holds scale factors relative to the kinematics
  (0.15, 0.15, 0.4), not the physical values: the simulator's block starts as (1, 1, 1),
  the estimators' initial block is (1, 1, 1) plus the draws scaled by the square root of
  the initial variance 1e-5, and the model change writes 0.85, which is not 0.1275 but
  gives 0.1275 when it scales the radius 0.15.
\<close>

theorem calibration_block_holds_scale_factors:
  "kinematic = \<lparr>radius_left = 15 / 100, radius_right = 15 / 100, separation = 4 / 10\<rparr>
   \<and> element1 X_simulation_init = (1, 1, 1)
   \<and> element1 (X_init [n0, n1, n2, n3, n4, n5]) =
       (1 + sqrt (1 / 100000) * n3, 1 + sqrt (1 / 100000) * n4, 1 + sqrt (1 / 100000) * n5)
   \<and> element1 (tyre_squeeze X) = (85 / 100, 85 / 100, 1)
   \<and> (85 / 100 :: real) \<noteq> 1275 / 10000
   \<and> radius_left kinematic * (85 / 100) = 1275 / 10000
   \<and> radius_right kinematic * (85 / 100) = 1275 / 10000"
  by (simp add: X_simulation_init_value X_init_value tyre_squeeze_value)
     (simp add: kinematic_def)

text \<open>
  Claim C10. In every iteration the four filters and the unfiltered baseline consume the
  same inputs. The control is \<open>u_est = u_unfilt = (u_nom + u_noise) \<cdot> dt\<close> for all five.
  Each filter's state after the iteration is its own \<^verbatim>\<open>propagate\<close> on that control
  followed by its own \<^verbatim>\<open>update\<close> folded over one and the same list \<open>observations\<close>: the
  noisy landmark measurements in index order, then the position fix. The baseline gets
  the control and no update.
\<close>

theorem filters_consume_identical_inputs:
  "u_est L s = vec_scale (vec_add u_nom (u_noise L s)) dt
   \<and> u_unfilt L s = u_est L s
   \<and> ekf (step L t s) =
       foldl (\<lambda>f (m, y). EKF_update L f m y)
         (EKF_propagate L (ekf s) system_model (u_est L s)) (observations L t s)
   \<and> sekf (step L t s) =
       foldl (\<lambda>f (m, y). SEKF_update L f m y)
         (SEKF_propagate L (sekf s) system_model (u_est L s)) (observations L t s)
   \<and> iekf (step L t s) =
       foldl (\<lambda>f (m, y). IEKF_update L f m y)
         (IEKF_propagate L (iekf s) system_model (u_est L s) dt) (observations L t s)
   \<and> ukfm (step L t s) =
       foldl (\<lambda>f (m, y). UKFM_update L f m y)
         (UKFM_propagate L (ukfm s) system_model (u_est L s)) (observations L t s)
   \<and> X_unfiltered (step L t s) = f_sys L system_model (X_unfiltered s) (u_est L s)"
proof -
  have "u_unfilt L s = u_est L s"
    by (simp add: controls_unfold)
  then show ?thesis
    using step_ekf [of L t s] step_sekf [of L t s] step_iekf [of L t s] step_ukfm [of L t s]
      step_X_unfiltered [of L t s]
    by (simp add: controls_unfold)
qed

end
